theory Spec2Isabelle
  imports Main
begin

section \<open>The Gauntlet session and its statistics store\<close>

text \<open>
  A shallow embedding of \<^verbatim>\<open>src/shared/components/Gauntlet/index.tsx\<close> (the session: queue
  generation, answer handling, requeue, regeneration, end-of-game statistics) and of
  \<^verbatim>\<open>src/shared/lib/gauntletStats.ts\<close> (the persistent store).

  JavaScript numbers that count things (lives, tallies, milliseconds) are integer valued in
  this program and are modelled as \<open>int\<close>; positions in the queue are \<open>nat\<close>. The two
  ratios of the result record (\<^verbatim>\<open>accuracy\<close>, \<^verbatim>\<open>averageTimePerQuestionMs\<close>) are floating
  point quotients and are left out of the record. State that only drives the display (the
  typed answer, the shuffled options, the feedback flags, sounds) is left out as well.
\<close>

subsection \<open>Values and their string conversion\<close>

text \<open>
  Drill items are plain data. \<open>JObj\<close> is a plain object, given by its own properties (a key
  occurs once in an object; \<open>map_of\<close> reads the first occurrence); \<open>JArr\<close> is an array.
\<close>

datatype js_value =
    JUndefined
  | JNull
  | JBool bool
  | JNum int
  | JStr string
  | JArr "js_value list"
  | JObj "(string \<times> js_value) list"

text \<open>Decimal digits of a natural number, and \<^verbatim>\<open>String(n)\<close> for an integer \<open>n\<close>.\<close>

fun show_nat :: "nat \<Rightarrow> string" where
  "show_nat n = (if n < 10 then [''0123456789'' ! n]
                 else show_nat (n div 10) @ [''0123456789'' ! (n mod 10)])"

declare show_nat.simps [simp del]

definition show_int :: "int \<Rightarrow> string" where
  "show_int i = (if i < 0 then CHR ''-'' # show_nat (nat (- i)) else show_nat (nat i))"

fun join :: "string \<Rightarrow> string list \<Rightarrow> string" where
  "join sep [] = []"
| "join sep [x] = x"
| "join sep (x # y # ys) = x @ sep @ join sep (y # ys)"

text \<open>
  \<^verbatim>\<open>String(v)\<close>. A plain object converts to the fixed text \<^verbatim>\<open>[object Object]\<close>; an array
  joins the conversions of its elements with commas, \<^verbatim>\<open>null\<close> and \<^verbatim>\<open>undefined\<close>
  elements giving the empty text.
\<close>

fun js_String :: "js_value \<Rightarrow> string" where
  "js_String JUndefined = ''undefined''"
| "js_String JNull = ''null''"
| "js_String (JBool b) = (if b then ''true'' else ''false'')"
| "js_String (JNum n) = show_int n"
| "js_String (JStr s) = s"
| "js_String (JArr vs) =
     join '','' (map (\<lambda>v. if v = JNull \<or> v = JUndefined then [] else js_String v) vs)"
| "js_String (JObj fs) = ''[object Object]''"

subsection \<open>The random source\<close>

text \<open>
  \<^verbatim>\<open>random.integer(lo, hi)\<close> of the random-js library returns an integer of the closed range
  from \<open>lo\<close> to \<open>hi\<close>. The raw value the generator produces at a call is an input of the
  model; every value of the range is the image of some raw value.
\<close>

definition random_integer :: "nat \<Rightarrow> int \<Rightarrow> int \<Rightarrow> int" where
  "random_integer raw lo hi = lo + int raw mod (hi - lo + 1)"

text \<open>
  What a handler reads from outside while it runs: the successive results of
  \<^verbatim>\<open>Date.now()\<close> (\<open>dateNow k\<close> is the \<open>k\<close>-th reading of the handler) and the raw values of
  the random source (\<open>randomRaw i\<close> is the raw value of the draw made for loop index \<open>i\<close> of
  the shuffle; the requeue draw is \<open>randomRaw 0\<close>).
\<close>

record env =
  dateNow :: "nat \<Rightarrow> int"
  randomRaw :: "nat \<Rightarrow> nat"

subsection \<open>Queue generation\<close>

text \<open>
  The kinds of error the specification names. The two source files raise none of them.
\<close>

datatype error = InvalidConfigError | InvalidStateError | EmptyInputError

record GauntletQuestion =
  item :: js_value
  index :: int
  repetitionNumber :: int

text \<open>
  \<^verbatim>\<open>calculateRegenThreshold\<close>: a tenth of the questions, rounded up, clamped to 5..20. The
  argument is a queue length \<open>n\<close>. In double precision \<^verbatim>\<open>n * 0.1\<close> is exactly \<open>n / 10\<close>
  when 10 divides \<open>n\<close> and lies strictly between two integers otherwise, so
  \<^verbatim>\<open>Math.ceil(n * 0.1)\<close> is \<open>(n + 9) div 10\<close>.
\<close>

definition calculateRegenThreshold :: "int \<Rightarrow> int" where
  "calculateRegenThreshold totalQuestions = max 5 (min 20 ((totalQuestions + 9) div 10))"

text \<open>The entries pushed by the nested loops: for each item, repetitions 1 up to \<open>repetitions\<close>.\<close>

definition questionEntries :: "js_value list \<Rightarrow> int \<Rightarrow> GauntletQuestion list" where
  "questionEntries items repetitions =
     concat (map (\<lambda>it. map (\<lambda>rep. \<lparr>item = it, index = 0, repetitionNumber = rep\<rparr>)
                              [1..repetitions]) items)"

text \<open>
  The Fisher-Yates loop \<^verbatim>\<open>for (i = queue.length - 1; i > 0; i--)\<close>: \<open>fisherYates g i q\<close> runs
  the iterations \<open>i\<close>, \<open>i - 1\<close>, ..., 1 on \<open>q\<close>.
\<close>

fun fisherYates :: "(nat \<Rightarrow> nat) \<Rightarrow> nat \<Rightarrow> 'a list \<Rightarrow> 'a list" where
  "fisherYates g 0 q = q"
| "fisherYates g (Suc i) q =
     (let j = nat (random_integer (g (Suc i)) 0 (int (Suc i)))
      in fisherYates g i (q[Suc i := q ! j, j := q ! Suc i]))"

definition setIndices :: "GauntletQuestion list \<Rightarrow> GauntletQuestion list" where
  "setIndices q = map (\<lambda>(i, e). e\<lparr>index := int i\<rparr>) (enumerate 0 q)"

text \<open>
  \<^verbatim>\<open>generateQuestionQueue\<close>. The source has no \<^verbatim>\<open>throw\<close> and checks nothing about
  \<open>repetitions\<close>: every call returns a queue, so every result is an \<open>Inr\<close>.
\<close>

definition generateQuestionQueue ::
  "(nat \<Rightarrow> nat) \<Rightarrow> js_value list \<Rightarrow> int \<Rightarrow> error + GauntletQuestion list" where
  "generateQuestionQueue g items repetitions =
     (let queue = questionEntries items repetitions
      in Inr (setIndices (fisherYates g (length queue - 1) queue)))"

subsection \<open>Records of the session\<close>

datatype DojoType = Kana | Kanji | Vocabulary

record Tally =
  correct :: int
  wrong :: int

text \<open>
  The totals kept per dojo by the store, and the result record built by \<^verbatim>\<open>endGame\<close>
  (\<^verbatim>\<open>Omit<GauntletSessionStats, 'id'>\<close>), with the fields in the order of the source's
  object literal. The store adds the identifier.
\<close>

record LifetimeTotals =
  totalSessions :: int
  completedSessions :: int
  totalCorrect :: int
  totalWrong :: int
  bestStreak :: int

record SessionStats =
  timestamp :: int
  dojoType :: DojoType
  difficulty :: string
  gameMode :: string
  totalQuestions :: int
  correctAnswers :: int
  wrongAnswers :: int
  bestStreak :: int
  currentStreak :: int
  startingLives :: int
  livesRemaining :: int
  livesLost :: int
  livesRegenerated :: int
  totalTimeMs :: int
  fastestAnswerMs :: int
  slowestAnswerMs :: int
  completed :: bool
  questionsCompleted :: int
  characterStats :: "string \<rightharpoonup> Tally"
  totalCharacters :: int
  repetitionsPerChar :: int
  selectedSets :: "string list"

record GauntletSessionStats = SessionStats +
  session_id :: string

text \<open>
  An entry of the table \<^verbatim>\<open>DIFFICULTY_CONFIG\<close>. The table is declared in a file that is not
  part of the sources at hand; it is a field of the configuration.
\<close>

record DifficultyEntry =
  lives :: int
  regenerates :: bool

text \<open>
  What stays fixed while a session runs: the component's \<^verbatim>\<open>config\<close> property and the settings
  chosen before the start.
\<close>

record GauntletConfig =
  dojoType :: DojoType
  items :: "js_value list"
  selectedSets :: "string list"
  gameMode :: string
  difficulty :: string
  repetitions :: int
  DIFFICULTY_CONFIG :: "string \<Rightarrow> DifficultyEntry"

datatype Phase = Pregame | Playing | Results

text \<open>The state variables of the component (\<^verbatim>\<open>useState\<close> and the \<^verbatim>\<open>lastAnswerTime\<close> ref).\<close>

record GauntletState =
  phase :: Phase
  questionQueue :: "GauntletQuestion list"
  currentIndex :: nat
  lives :: int
  maxLives :: int
  correctSinceLastRegen :: int
  regenThreshold :: int
  correctAnswers :: int
  wrongAnswers :: int
  currentStreak :: int
  bestStreak :: int
  livesRegenerated :: int
  characterStats :: "string \<rightharpoonup> Tally"
  startTime :: int
  answerTimes :: "int list"
  lastAnswerTime :: int
  sessionStats :: "SessionStats option"

definition initialState :: GauntletState where
  "initialState =
     \<lparr>phase = Pregame, questionQueue = [], currentIndex = 0, lives = 3, maxLives = 3,
      correctSinceLastRegen = 0, regenThreshold = 10, correctAnswers = 0, wrongAnswers = 0,
      currentStreak = 0, bestStreak = 0, livesRegenerated = 0, characterStats = Map.empty,
      startTime = 0, answerTimes = [], lastAnswerTime = 0, sessionStats = None\<rparr>"

definition totalQuestions :: "GauntletConfig \<Rightarrow> int" where
  "totalQuestions cfg = int (length (items cfg)) * repetitions cfg"

text \<open>\<^verbatim>\<open>questionQueue[currentIndex] || null\<close>\<close>

definition currentQuestion :: "GauntletState \<Rightarrow> GauntletQuestion option" where
  "currentQuestion s =
     (if currentIndex s < length (questionQueue s) then Some (questionQueue s ! currentIndex s)
      else None)"

subsection \<open>Starting a session\<close>

text \<open>
  \<^verbatim>\<open>handleStart\<close>. An exception of the queue generation would leave the state as it is.
\<close>

definition handleStart :: "GauntletConfig \<Rightarrow> env \<Rightarrow> GauntletState \<Rightarrow> GauntletState" where
  "handleStart cfg e s =
     (case generateQuestionQueue (randomRaw e) (items cfg) (repetitions cfg) of
        Inl err \<Rightarrow> s
      | Inr queue \<Rightarrow>
          (let diffConfig = DIFFICULTY_CONFIG cfg (difficulty cfg);
               threshold = calculateRegenThreshold (int (length queue));
               now = dateNow e 0
           in s\<lparr>questionQueue := queue, currentIndex := 0,
                 lives := DifficultyEntry.lives diffConfig,
                 maxLives := DifficultyEntry.lives diffConfig,
                 correctSinceLastRegen := 0, regenThreshold := threshold,
                 correctAnswers := 0, wrongAnswers := 0, currentStreak := 0, bestStreak := 0,
                 livesRegenerated := 0, characterStats := Map.empty,
                 startTime := now, answerTimes := [], lastAnswerTime := now,
                 phase := Playing\<rparr>))"

subsection \<open>Item identity\<close>

text \<open>
  \<^verbatim>\<open>getItemId\<close>: for an object, the first of the properties \<^verbatim>\<open>kana\<close>, \<^verbatim>\<open>kanji\<close>,
  \<^verbatim>\<open>word\<close>, \<^verbatim>\<open>id\<close> that it has, converted to a string; otherwise the conversion of the item
  itself. An array is an object without these properties.
\<close>

definition getItemId :: "js_value \<Rightarrow> string" where
  "getItemId it =
     (case it of
        JObj obj \<Rightarrow>
          (case map_of obj ''kana'' of Some v \<Rightarrow> js_String v | None \<Rightarrow>
          (case map_of obj ''kanji'' of Some v \<Rightarrow> js_String v | None \<Rightarrow>
          (case map_of obj ''word'' of Some v \<Rightarrow> js_String v | None \<Rightarrow>
          (case map_of obj ''id'' of Some v \<Rightarrow> js_String v | None \<Rightarrow> js_String it))))
      | _ \<Rightarrow> js_String it)"

subsection \<open>Answering\<close>

text \<open>
  The handlers are closures over the values of the last render; the setters they call build
  the next state. In the functions below \<open>snap\<close> is the state as the closures captured it and
  \<open>acc\<close> the state under construction, to which the functional updaters
  (\<^verbatim>\<open>prev => ...\<close>) apply. One render separates two events, so a handler starts with
  \<open>acc = snap\<close>.
\<close>

text \<open>\<^verbatim>\<open>recordAnswerTime\<close>\<close>

definition recordAnswerTime :: "env \<Rightarrow> GauntletState \<Rightarrow> GauntletState" where
  "recordAnswerTime e acc =
     (let now = dateNow e 0;
          acc1 = (if lastAnswerTime acc > 0
                  then (let timeTaken = now - lastAnswerTime acc
                        in if timeTaken > 0 then acc\<lparr>answerTimes := answerTimes acc @ [timeTaken]\<rparr>
                           else acc)
                  else acc)
      in acc1\<lparr>lastAnswerTime := now\<rparr>)"

text \<open>
  \<^verbatim>\<open>endGame\<close>: the result record is built from the arguments and from the values the closure
  captured. The record is handed to \<^verbatim>\<open>saveSession\<close> (modelled with the store below) and the
  phase becomes \<^verbatim>\<open>results\<close>; the two happen in one step here.
\<close>

definition endGame_stats ::
  "GauntletConfig \<Rightarrow> env \<Rightarrow> GauntletState \<Rightarrow> bool \<Rightarrow> int \<Rightarrow> int \<Rightarrow> int \<Rightarrow> int \<Rightarrow> SessionStats" where
  "endGame_stats cfg e snap completed' actualLives actualCorrectAnswers actualWrongAnswers
       actualQuestionsCompleted =
     (let totalTimeMs' = dateNow e 1 - startTime snap;
          validAnswerTimes = filter (\<lambda>t. t > 0) (answerTimes snap)
      in \<lparr>timestamp = dateNow e 2,
          SessionStats.dojoType = GauntletConfig.dojoType cfg,
          SessionStats.difficulty = GauntletConfig.difficulty cfg,
          SessionStats.gameMode = GauntletConfig.gameMode cfg,
          SessionStats.totalQuestions = totalQuestions cfg,
          SessionStats.correctAnswers = actualCorrectAnswers,
          SessionStats.wrongAnswers = actualWrongAnswers,
          SessionStats.bestStreak = GauntletState.bestStreak snap,
          SessionStats.currentStreak = GauntletState.currentStreak snap,
          startingLives = maxLives snap,
          livesRemaining = actualLives,
          livesLost = maxLives snap - actualLives + GauntletState.livesRegenerated snap,
          SessionStats.livesRegenerated = GauntletState.livesRegenerated snap,
          totalTimeMs = totalTimeMs',
          fastestAnswerMs = (case validAnswerTimes of [] \<Rightarrow> 0 | t # ts \<Rightarrow> fold min ts t),
          slowestAnswerMs = (case validAnswerTimes of [] \<Rightarrow> 0 | t # ts \<Rightarrow> fold max ts t),
          completed = completed',
          questionsCompleted = actualQuestionsCompleted,
          SessionStats.characterStats = GauntletState.characterStats snap,
          totalCharacters = int (length (items cfg)),
          repetitionsPerChar = repetitions cfg,
          SessionStats.selectedSets = GauntletConfig.selectedSets cfg\<rparr>)"

definition endGame ::
  "GauntletConfig \<Rightarrow> env \<Rightarrow> GauntletState \<Rightarrow> bool \<Rightarrow> int \<Rightarrow> int \<Rightarrow> int \<Rightarrow> int \<Rightarrow>
     GauntletState \<Rightarrow> GauntletState" where
  "endGame cfg e snap completed' actualLives actualCorrectAnswers actualWrongAnswers
       actualQuestionsCompleted acc =
     acc\<lparr>sessionStats := Some (endGame_stats cfg e snap completed' actualLives
                                  actualCorrectAnswers actualWrongAnswers
                                  actualQuestionsCompleted),
         phase := Results\<rparr>"

text \<open>
  \<^verbatim>\<open>newQueue.splice(insertPos, 0, x)\<close>: a negative start counts from the end, and the start is
  clamped to the bounds of the array.
\<close>

definition splice_insert :: "int \<Rightarrow> 'a \<Rightarrow> 'a list \<Rightarrow> 'a list" where
  "splice_insert start x xs =
     (let len = int (length xs);
          k = nat (if start < 0 then max (len + start) 0 else min start len)
      in take k xs @ [x] @ drop k xs)"

text \<open>
  The offset and the position at which the failed entry is put back, as computed in the
  updater passed to \<^verbatim>\<open>setQuestionQueue\<close>.
\<close>

definition insertOffset :: "nat \<Rightarrow> nat \<Rightarrow> nat \<Rightarrow> int" where
  "insertOffset raw currentIndex' len =
     (let remainingLength = int len - (int currentIndex' + 1)
      in if remainingLength > 0 then random_integer raw 1 (max 1 (min remainingLength 5))
         else 1)"

definition insertPos :: "nat \<Rightarrow> nat \<Rightarrow> nat \<Rightarrow> int" where
  "insertPos raw currentIndex' len = int currentIndex' + insertOffset raw currentIndex' len"

text \<open>
  The updater itself. It is reached only behind the test \<^verbatim>\<open>if (!currentQuestion) return\<close>,
  so \<open>currentIndex'\<close> is an index of \<open>prev\<close> and the copied entry exists.
\<close>

definition requeue :: "nat \<Rightarrow> int \<Rightarrow> nat \<Rightarrow> GauntletQuestion list \<Rightarrow> GauntletQuestion list" where
  "requeue raw maxQueueSize currentIndex' prev =
     (if int (length prev) \<ge> maxQueueSize then prev
      else (let failedQuestion = prev ! currentIndex'
            in splice_insert (insertPos raw currentIndex' (length prev)) failedQuestion prev))"

text \<open>\<^verbatim>\<open>advanceToNextQuestion\<close>\<close>

definition advanceToNextQuestion ::
  "GauntletConfig \<Rightarrow> env \<Rightarrow> GauntletState \<Rightarrow> int \<Rightarrow> bool \<Rightarrow> int \<Rightarrow> int \<Rightarrow> int \<Rightarrow>
     GauntletState \<Rightarrow> GauntletState" where
  "advanceToNextQuestion cfg e snap newLives wasCorrect newCorrectAnswers newWrongAnswers
       questionsCompleted' acc =
     (if newLives \<le> 0
      then endGame cfg e snap False newLives newCorrectAnswers newWrongAnswers
             questionsCompleted' acc
      else if wasCorrect
      then (if newCorrectAnswers \<ge> totalQuestions cfg
            then endGame cfg e snap True newLives newCorrectAnswers newWrongAnswers
                   questionsCompleted' acc
            else acc\<lparr>currentIndex := currentIndex acc + 1\<rparr>)
      else (let maxQueueSize = totalQuestions cfg * 3
            in acc\<lparr>questionQueue :=
                       requeue (randomRaw e 0) maxQueueSize (currentIndex snap) (questionQueue acc),
                   currentIndex := currentIndex acc + 1\<rparr>))"

text \<open>The two updates of \<^verbatim>\<open>characterStats\<close>.\<close>

definition tallyCorrect :: "string \<Rightarrow> (string \<rightharpoonup> Tally) \<Rightarrow> (string \<rightharpoonup> Tally)" where
  "tallyCorrect charId prev =
     prev(charId \<mapsto> \<lparr>correct = (case prev charId of None \<Rightarrow> 0 | Some t \<Rightarrow> correct t) + 1,
                       wrong = (case prev charId of None \<Rightarrow> 0 | Some t \<Rightarrow> wrong t)\<rparr>)"

definition tallyWrong :: "string \<Rightarrow> (string \<rightharpoonup> Tally) \<Rightarrow> (string \<rightharpoonup> Tally)" where
  "tallyWrong charId prev =
     prev(charId \<mapsto> \<lparr>correct = (case prev charId of None \<Rightarrow> 0 | Some t \<Rightarrow> correct t),
                       wrong = (case prev charId of None \<Rightarrow> 0 | Some t \<Rightarrow> wrong t) + 1\<rparr>)"

text \<open>The regeneration block of the correct branch.\<close>

definition regenerate :: "GauntletConfig \<Rightarrow> GauntletState \<Rightarrow> GauntletState \<Rightarrow> GauntletState" where
  "regenerate cfg snap acc =
     (let canRegen = regenerates (DIFFICULTY_CONFIG cfg (difficulty cfg))
      in if canRegen \<and> lives snap < maxLives snap
         then (let newCorrectSinceRegen = correctSinceLastRegen snap + 1
               in if newCorrectSinceRegen \<ge> regenThreshold snap
                  then acc\<lparr>lives := min (lives acc + 1) (maxLives snap),
                           correctSinceLastRegen := 0,
                           livesRegenerated := livesRegenerated acc + 1\<rparr>
                  else acc\<lparr>correctSinceLastRegen := newCorrectSinceRegen\<rparr>)
         else acc)"

text \<open>\<^verbatim>\<open>submitAnswer\<close>, called with the state of the last render.\<close>

definition submitAnswer :: "GauntletConfig \<Rightarrow> env \<Rightarrow> bool \<Rightarrow> GauntletState \<Rightarrow> GauntletState" where
  "submitAnswer cfg e isCorrect snap =
     (case currentQuestion snap of
        None \<Rightarrow> snap
      | Some q \<Rightarrow>
          (let acc = recordAnswerTime e snap;
               charId = getItemId (item q)
           in if isCorrect
              then (let newStreak = currentStreak acc + 1;
                        acc1 = acc\<lparr>correctAnswers := correctAnswers acc + 1,
                                  currentStreak := newStreak,
                                  bestStreak := (if newStreak > bestStreak snap then newStreak
                                                 else bestStreak acc),
                                  characterStats := tallyCorrect charId (characterStats acc)\<rparr>;
                        newCorrectAnswers = correctAnswers snap + 1;
                        questionsCompleted' = int (currentIndex snap) + 1;
                        acc2 = regenerate cfg snap acc1
                    in advanceToNextQuestion cfg e snap (lives snap) True newCorrectAnswers
                         (wrongAnswers snap) questionsCompleted' acc2)
              else (let acc1 = acc\<lparr>wrongAnswers := wrongAnswers acc + 1,
                                  currentStreak := 0,
                                  correctSinceLastRegen := 0,
                                  characterStats := tallyWrong charId (characterStats acc)\<rparr>;
                        newLives = lives snap - 1;
                        newWrongAnswers = wrongAnswers snap + 1;
                        questionsCompletedOnWrong = int (currentIndex snap) + 1;
                        acc2 = acc1\<lparr>lives := newLives\<rparr>
                    in advanceToNextQuestion cfg e snap newLives False (correctAnswers snap)
                         newWrongAnswers questionsCompletedOnWrong acc2)))"

subsection \<open>Events\<close>

text \<open>
  What the rendered screen lets happen. With an empty item list only the empty screen is
  shown. The start button is on the pre-game screen and, as restart, on the results screen;
  answers come from the game screen, which is shown in the remaining case. Leaving the
  game (cancel, change of settings) only sets the phase and is not among the events.
\<close>

datatype event = Start | Submit bool

definition step :: "GauntletConfig \<Rightarrow> env \<times> event \<Rightarrow> GauntletState \<Rightarrow> GauntletState" where
  "step cfg ev s =
     (if items cfg = [] then s
      else (case snd ev of
              Start \<Rightarrow>
                (if phase s = Pregame \<or> (phase s = Results \<and> sessionStats s \<noteq> None)
                 then handleStart cfg (fst ev) s else s)
            | Submit isCorrect \<Rightarrow>
                (if phase s = Pregame \<or> (phase s = Results \<and> sessionStats s \<noteq> None)
                 then s else submitAnswer cfg (fst ev) isCorrect s)))"

definition run :: "GauntletConfig \<Rightarrow> (env \<times> event) list \<Rightarrow> GauntletState \<Rightarrow> GauntletState" where
  "run cfg evs s = fold (step cfg) evs s"

subsection \<open>The persistent store\<close>

text \<open>
  The stored item as the interface \<^verbatim>\<open>StoredGauntletData\<close> declares it, and the older shape
  without \<^verbatim>\<open>lifetimeTotals\<close> that \<^verbatim>\<open>loadData\<close> migrates. The three records of
  \<^verbatim>\<open>bestTimes\<close> and of \<^verbatim>\<open>lifetimeTotals\<close> are one function of the dojo.
\<close>

record StoredBase =
  version :: int
  sessions :: "GauntletSessionStats list"
  bestTimes :: "DojoType \<Rightarrow> (string \<rightharpoonup> int)"

record StoredGauntletData = StoredBase +
  lifetimeTotals :: "DojoType \<Rightarrow> LifetimeTotals"

datatype stored_item = Legacy StoredBase | Current StoredGauntletData

text \<open>What is kept under the storage key: nothing, or an item.\<close>

type_synonym storage = "stored_item option"

text \<open>
  What a call of \<^verbatim>\<open>saveSession\<close> meets outside: the identifier that
  \<^verbatim>\<open>generateSessionId\<close> makes from the clock and the random source, and whether the read
  and the write of the backend are rejected.
\<close>

record save_env =
  newId :: string
  getItemFails :: bool
  setItemFails :: bool

record save_result =
  saved :: bool
  isNewBest :: bool

definition getDefaultLifetimeTotals :: LifetimeTotals where
  "getDefaultLifetimeTotals =
     \<lparr>totalSessions = 0, completedSessions = 0, totalCorrect = 0, totalWrong = 0,
      LifetimeTotals.bestStreak = 0\<rparr>"

definition getDefaultData :: StoredGauntletData where
  "getDefaultData =
     \<lparr>version = 1, sessions = [], bestTimes = (\<lambda>d. Map.empty),
      lifetimeTotals = (\<lambda>d. getDefaultLifetimeTotals)\<rparr>"

definition getBestTimeKey :: "string \<Rightarrow> int \<Rightarrow> string \<Rightarrow> int \<Rightarrow> string" where
  "getBestTimeKey difficulty' repetitions' gameMode' totalCharacters' =
     difficulty' @ ''-'' @ show_int repetitions' @ ''-'' @ gameMode' @ ''-''
       @ show_int totalCharacters'"

text \<open>
  The five statements that add one session to the totals of its dojo. The source writes them
  twice, in the migration loop of \<^verbatim>\<open>loadData\<close> and in \<^verbatim>\<open>saveSession\<close>.
\<close>

definition accumulate ::
  "'a SessionStats_scheme \<Rightarrow> (DojoType \<Rightarrow> LifetimeTotals) \<Rightarrow> (DojoType \<Rightarrow> LifetimeTotals)" where
  "accumulate st lt =
     (let totals = lt (SessionStats.dojoType st)
      in lt(SessionStats.dojoType st :=
              \<lparr>totalSessions = totalSessions totals + 1,
               completedSessions =
                 (if completed st then completedSessions totals + 1 else completedSessions totals),
               totalCorrect = totalCorrect totals + SessionStats.correctAnswers st,
               totalWrong = totalWrong totals + SessionStats.wrongAnswers st,
               LifetimeTotals.bestStreak =
                 max (LifetimeTotals.bestStreak totals) (SessionStats.bestStreak st)\<rparr>))"

text \<open>\<^verbatim>\<open>loadData\<close>; a rejected read gives the default data, as the \<^verbatim>\<open>catch\<close> does.\<close>

definition loadData :: "bool \<Rightarrow> storage \<Rightarrow> StoredGauntletData" where
  "loadData readFails st =
     (if readFails then getDefaultData
      else (case st of
              None \<Rightarrow> getDefaultData
            | Some (Current data) \<Rightarrow> (if version data = 1 then data else getDefaultData)
            | Some (Legacy data) \<Rightarrow>
                (if version data = 1
                 then StoredBase.extend data
                        (StoredGauntletData.fields
                           (fold accumulate (sessions data) (\<lambda>d. getDefaultLifetimeTotals)))
                 else getDefaultData)))"

text \<open>\<^verbatim>\<open>saveData\<close>; a rejected write is logged and leaves the stored item as it was.\<close>

definition saveData :: "bool \<Rightarrow> StoredGauntletData \<Rightarrow> storage \<Rightarrow> storage" where
  "saveData writeFails data st = (if writeFails then st else Some (Current data))"

text \<open>
  \<^verbatim>\<open>saveSession\<close>. The test \<^verbatim>\<open>!currentBest\<close> holds when the key has no entry and also when
  the entry is the number 0.
\<close>

definition saveSession :: "save_env \<Rightarrow> SessionStats \<Rightarrow> storage \<Rightarrow> save_result \<times> storage" where
  "saveSession io stats st =
     (let data = loadData (getItemFails io) st;
          session = SessionStats.extend stats (GauntletSessionStats.fields (newId io));
          data1 = data\<lparr>lifetimeTotals := accumulate stats (lifetimeTotals data)\<rparr>;
          data2 = data1\<lparr>sessions := session # sessions data1\<rparr>;
          data3 = (if length (sessions data2) > 100
                   then data2\<lparr>sessions := take 100 (sessions data2)\<rparr> else data2);
          key = getBestTimeKey (SessionStats.difficulty stats) (repetitionsPerChar stats)
                  (SessionStats.gameMode stats) (totalCharacters stats);
          currentBest = bestTimes data3 (SessionStats.dojoType stats) key;
          newBest = (completed stats \<and>
                     (case currentBest of
                        None \<Rightarrow> True
                      | Some b \<Rightarrow> b = 0 \<or> totalTimeMs stats < b));
          data4 = (if newBest
                   then data3\<lparr>bestTimes :=
                                (bestTimes data3)(SessionStats.dojoType stats :=
                                   (bestTimes data3 (SessionStats.dojoType stats))
                                     (key \<mapsto> totalTimeMs stats))\<rparr>
                   else data3)
      in (\<lparr>saved = True, isNewBest = newBest\<rparr>, saveData (setItemFails io) data4 st))"

text \<open>\<^verbatim>\<open>getBestTime\<close>, with \<open>None\<close> for \<^verbatim>\<open>null\<close>.\<close>

definition getBestTime ::
  "bool \<Rightarrow> storage \<Rightarrow> DojoType \<Rightarrow> string \<Rightarrow> int \<Rightarrow> string \<Rightarrow> int \<Rightarrow> int option" where
  "getBestTime readFails st dojoType' difficulty' repetitions' gameMode' totalCharacters' =
     bestTimes (loadData readFails st) dojoType'
       (getBestTimeKey difficulty' repetitions' gameMode' totalCharacters')"

text \<open>A sequence of calls of \<^verbatim>\<open>saveSession\<close>, each on the storage the previous one left.\<close>

fun saveSessions :: "(save_env \<times> SessionStats) list \<Rightarrow> storage \<Rightarrow> storage" where
  "saveSessions [] st = st"
| "saveSessions ((io, stats) # rest) st = saveSessions rest (snd (saveSession io stats st))"

subsection \<open>The requeue window\<close>

text \<open>
  The number of positions the failed entry can take: they run from the position after the
  cursor to five after it, but not beyond the last index of the queue, and there is always
  the one after the cursor.
\<close>

definition requeueWidth :: "nat \<Rightarrow> nat \<Rightarrow> nat" where
  "requeueWidth c len = nat (max (int c + 1) (min (int c + 5) (int len - 1)) - int c)"

subsection \<open>Runs and invariants\<close>

text \<open>A run of consecutive correct answers, one per environment.\<close>

definition correctAnswersRun :: "env list \<Rightarrow> (env \<times> event) list" where
  "correctAnswersRun es = map (\<lambda>e. (e, Submit True)) es"



subsection \<open>What the store is expected to hold\<close>


definition keyOf :: "SessionStats \<Rightarrow> string" where
  "keyOf x = getBestTimeKey (SessionStats.difficulty x) (repetitionsPerChar x)
               (SessionStats.gameMode x) (totalCharacters x)"

definition completedTimes :: "DojoType \<Rightarrow> string \<Rightarrow> SessionStats list \<Rightarrow> int list" where
  "completedTimes d k xs =
     map totalTimeMs (filter (\<lambda>x. completed x \<and> SessionStats.dojoType x = d \<and> keyOf x = k) xs)"

definition leastTime :: "int list \<Rightarrow> int option" where
  "leastTime ts = (case ts of [] \<Rightarrow> None | t # rest \<Rightarrow> Some (fold min rest t))"

text \<open>
  The test of \<^verbatim>\<open>saveSession\<close> for a new best, read on the loaded data; a sequence of calls in
  which the backend never rejects a read or a write; and the least time from a stored best
  on.
\<close>

definition newBestFor :: "SessionStats \<Rightarrow> StoredGauntletData \<Rightarrow> bool" where
  "newBestFor x data \<longleftrightarrow>
     completed x \<and>
     (case bestTimes data (SessionStats.dojoType x) (keyOf x) of
        None \<Rightarrow> True | Some b \<Rightarrow> b = 0 \<or> totalTimeMs x < b)"

definition backendWorks :: "(save_env \<times> SessionStats) list \<Rightarrow> bool" where
  "backendWorks calls \<longleftrightarrow> (\<forall>c \<in> set calls. \<not> getItemFails (fst c) \<and> \<not> setItemFails (fst c))"

definition leastFrom :: "int option \<Rightarrow> int list \<Rightarrow> int option" where
  "leastFrom cur ts = (case cur of None \<Rightarrow> leastTime ts | Some b \<Rightarrow> Some (fold min ts b))"

subsection \<open>Concrete sessions\<close>

text \<open>
  A difficulty table with three lives and regeneration, a configuration over given items,
  and an environment whose clock starts at \<open>t\<close> and whose random source yields \<open>raw\<close>.
\<close>

definition example_table :: "string \<Rightarrow> DifficultyEntry" where
  "example_table d = \<lparr>DifficultyEntry.lives = 3, regenerates = True\<rparr>"

definition example_config :: "js_value list \<Rightarrow> int \<Rightarrow> GauntletConfig" where
  "example_config its reps =
     \<lparr>GauntletConfig.dojoType = Kana, items = its, GauntletConfig.selectedSets = [],
      GauntletConfig.gameMode = ''Pick'', GauntletConfig.difficulty = ''normal'',
      repetitions = reps, DIFFICULTY_CONFIG = example_table\<rparr>"

definition example_env :: "int \<Rightarrow> nat \<Rightarrow> env" where
  "example_env t raw = \<lparr>dateNow = (\<lambda>k. t + int k), randomRaw = (\<lambda>i. raw)\<rparr>"

text \<open>A queue entry for the kana \<open>k\<close>, and a running session at cursor \<open>c\<close> with \<open>l\<close> lives.\<close>

definition example_question :: "string \<Rightarrow> GauntletQuestion" where
  "example_question k = \<lparr>item = JObj [(''kana'', JStr k)], index = 0, repetitionNumber = 1\<rparr>"

definition example_state :: "GauntletQuestion list \<Rightarrow> nat \<Rightarrow> int \<Rightarrow> GauntletState" where
  "example_state Q c l =
     initialState\<lparr>phase := Playing, questionQueue := Q, currentIndex := c, lives := l,
                  regenThreshold := 5\<rparr>"

text \<open>
  A result record of dojo \<open>d\<close> with the given completion flag and total time, and a call
  environment of the store in which the backend works.
\<close>

definition example_stats :: "DojoType \<Rightarrow> bool \<Rightarrow> int \<Rightarrow> SessionStats" where
  "example_stats d c t =
     \<lparr>timestamp = 0, SessionStats.dojoType = d, SessionStats.difficulty = ''normal'',
      SessionStats.gameMode = ''Pick'', SessionStats.totalQuestions = 5,
      SessionStats.correctAnswers = 5, SessionStats.wrongAnswers = 1,
      SessionStats.bestStreak = 4, SessionStats.currentStreak = 4, startingLives = 3,
      livesRemaining = 2, livesLost = 1, SessionStats.livesRegenerated = 0, totalTimeMs = t,
      fastestAnswerMs = 0, slowestAnswerMs = 0, completed = c, questionsCompleted = 6,
      SessionStats.characterStats = Map.empty, totalCharacters = 5, repetitionsPerChar = 1,
      SessionStats.selectedSets = []\<rparr>"

definition example_io :: "string \<Rightarrow> save_env" where
  "example_io i = \<lparr>newId = i, getItemFails = False, setItemFails = False\<rparr>"

lemmas example_defs = example_state_def example_question_def example_config_def
  example_env_def example_table_def initialState_def currentQuestion_def totalQuestions_def

section \<open>Queue generation\<close>

lemma questionEntries_empty: "reps < 1 \<Longrightarrow> questionEntries its reps = []"
  by (simp add: questionEntries_def)

text \<open>
  C1 (as amended). For every repetitions value below 1 the queue generation raises no
  error: it returns the empty queue.
\<close>

theorem generateQuestionQueue_below_one:
  "reps < 1 \<Longrightarrow> generateQuestionQueue g its reps = Inr []"
  by (simp add: generateQuestionQueue_def questionEntries_empty setIndices_def)

theorem generateQuestionQueue_below_one_witness:
  "(0::int) < 1 \<and> generateQuestionQueue (\<lambda>i. 7) [JStr ''ka'', JStr ''ki''] 0 = Inr []"
  using generateQuestionQueue_below_one [of 0 "\<lambda>i. 7" "[JStr ''ka'', JStr ''ki'']"] by simp

text \<open>
  C1 as stated fails: with repetitions 0 the generation does not fail with
  \<open>InvalidConfigError\<close> but returns the empty queue, and \<^verbatim>\<open>handleStart\<close> goes on to set
  the state, the phase included.
\<close>

theorem generateQuestionQueue_no_error_counterexample:
  "(0::int) < 1
   \<and> generateQuestionQueue (\<lambda>i. 0) [JStr ''ka''] 0 \<noteq> Inl InvalidConfigError
   \<and> generateQuestionQueue (\<lambda>i. 0) [JStr ''ka''] 0 = Inr []
   \<and> phase (handleStart (example_config [JStr ''ka''] 0) (example_env 1000 0) initialState)
         = Playing"
  by (simp add: generateQuestionQueue_def questionEntries_def setIndices_def handleStart_def
        example_config_def example_env_def Let_def)

section \<open>The position of a requeued entry\<close>

lemma insertPos_formula:
  assumes "c < len"
  shows "insertPos raw c len = int (c + 1 + raw mod requeueWidth c len)"
proof (cases "int len - (int c + 1) > 0")
  case True
  define k where "k = max 1 (min (int len - (int c + 1)) 5)"
  have k: "k = int (requeueWidth c len)" using True by (auto simp: k_def requeueWidth_def)
  have "insertPos raw c len = int c + (1 + int raw mod k)"
    using True by (simp add: insertPos_def insertOffset_def random_integer_def k_def)
  then show ?thesis by (simp add: k zmod_int)
next
  case False
  then have "requeueWidth c len = 1" using assms by (auto simp: requeueWidth_def)
  then show ?thesis using False by (simp add: insertPos_def insertOffset_def)
qed

lemma requeueWidth_pos: "0 < requeueWidth c len"
  by (auto simp: requeueWidth_def)

lemma insertPos_le_len:
  assumes "c < len"
  shows "c + 1 + raw mod requeueWidth c len \<le> len"
proof -
  have "raw mod requeueWidth c len < requeueWidth c len" using requeueWidth_pos by simp
  moreover have "int (requeueWidth c len) \<le> int len - int c" using assms by (auto simp: requeueWidth_def)
  ultimately show ?thesis by linarith
qed

lemma splice_insert_in_range:
  "p \<le> length xs \<Longrightarrow> splice_insert (int p) x xs = take p xs @ [x] @ drop p xs"
  by (simp add: splice_insert_def Let_def min_def)

lemma requeue_below_cap:
  assumes "c < length Q" and "int (length Q) < cap"
  shows "requeue raw cap c Q =
           take (c + 1 + raw mod requeueWidth c (length Q)) Q @ [Q ! c]
             @ drop (c + 1 + raw mod requeueWidth c (length Q)) Q"
proof -
  define p where "p = c + 1 + raw mod requeueWidth c (length Q)"
  have p: "p \<le> length Q" unfolding p_def by (rule insertPos_le_len [OF assms(1)])
  have "insertPos raw c (length Q) = int p"
    unfolding p_def by (rule insertPos_formula [OF assms(1)])
  then have "requeue raw cap c Q = splice_insert (int p) (Q ! c) Q"
    using assms(2) by (simp add: requeue_def)
  also have "\<dots> = take p Q @ [Q ! c] @ drop p Q"
    by (rule splice_insert_in_range [OF p])
  finally show ?thesis unfolding p_def .
qed

lemma requeue_at_cap: "cap \<le> int (length Q) \<Longrightarrow> requeue raw cap c Q = Q"
  by (simp add: requeue_def)

section \<open>The effect of one answer\<close>

lemma submitAnswer_wrong:
  assumes "currentQuestion s = Some q"
  shows "lives (submitAnswer cfg e False s) = lives s - 1"
    and "maxLives (submitAnswer cfg e False s) = maxLives s"
    and "wrongAnswers (submitAnswer cfg e False s) = wrongAnswers s + 1"
    and "correctAnswers (submitAnswer cfg e False s) = correctAnswers s"
    and "currentStreak (submitAnswer cfg e False s) = 0"
    and "GauntletState.bestStreak (submitAnswer cfg e False s) = GauntletState.bestStreak s"
    and "correctSinceLastRegen (submitAnswer cfg e False s) = 0"
    and "regenThreshold (submitAnswer cfg e False s) = regenThreshold s"
    and "GauntletState.livesRegenerated (submitAnswer cfg e False s) = GauntletState.livesRegenerated s"
    and "GauntletState.characterStats (submitAnswer cfg e False s)
           = tallyWrong (getItemId (item q)) (GauntletState.characterStats s)"
    and "questionQueue (submitAnswer cfg e False s)
           = (if lives s \<le> 1 then questionQueue s
              else requeue (randomRaw e 0) (totalQuestions cfg * 3) (currentIndex s) (questionQueue s))"
    and "currentIndex (submitAnswer cfg e False s)
           = (if lives s \<le> 1 then currentIndex s else currentIndex s + 1)"
    and "phase (submitAnswer cfg e False s) = (if lives s \<le> 1 then Results else phase s)"
  using assms
  by (simp_all add: submitAnswer_def advanceToNextQuestion_def endGame_def recordAnswerTime_def
        Let_def)


text \<open>
  C2 (as amended). A wrong answer on the current entry that leaves lives advances the cursor
  by exactly 1, whether or not the entry is put back. While the queue is below three times
  the target, a copy of the current entry is inserted at position \<open>p\<close>, the cursor plus 1
  plus the raw draw modulo the width of the window: every position from \<open>cursor + 1\<close> to
  \<open>max (cursor + 1) (min (cursor + 5) (length - 1))\<close> is taken for one residue of the draw
  and no other position is taken.
\<close>

theorem requeue_on_wrong_answer:
  assumes "currentQuestion s = Some q" and "1 < lives s"
  shows "currentIndex (submitAnswer cfg e False s) = currentIndex s + 1
       \<and> (if int (length (questionQueue s)) < totalQuestions cfg * 3
          then (let p = currentIndex s + 1
                          + randomRaw e 0 mod requeueWidth (currentIndex s) (length (questionQueue s))
                in questionQueue (submitAnswer cfg e False s)
                     = take p (questionQueue s) @ [q] @ drop p (questionQueue s)
                 \<and> currentIndex s + 1 \<le> p
                 \<and> int p \<le> max (int (currentIndex s) + 1)
                               (min (int (currentIndex s) + 5) (int (length (questionQueue s)) - 1)))
          else questionQueue (submitAnswer cfg e False s) = questionQueue s)"
proof -
  let ?Q = "questionQueue s" and ?c = "currentIndex s"
  from assms(1) have c: "?c < length ?Q" and q: "q = ?Q ! ?c"
    by (auto simp: currentQuestion_def split: if_splits)
  have idx: "currentIndex (submitAnswer cfg e False s) = ?c + 1"
    using assms by (simp add: submitAnswer_wrong(12))
  have qq: "questionQueue (submitAnswer cfg e False s)
              = requeue (randomRaw e 0) (totalQuestions cfg * 3) ?c ?Q"
    using assms by (simp add: submitAnswer_wrong(11))
  show ?thesis
  proof (cases "int (length ?Q) < totalQuestions cfg * 3")
    case True
    have w: "randomRaw e 0 mod requeueWidth ?c (length ?Q) < requeueWidth ?c (length ?Q)"
      using requeueWidth_pos by simp
    have "int (requeueWidth ?c (length ?Q))
            = max (int ?c + 1) (min (int ?c + 5) (int (length ?Q) - 1)) - int ?c"
      by (auto simp: requeueWidth_def)
    with w have ub: "int (?c + 1 + randomRaw e 0 mod requeueWidth ?c (length ?Q))
                     \<le> max (int ?c + 1) (min (int ?c + 5) (int (length ?Q) - 1))"
      by linarith
    show ?thesis
      using True idx ub requeue_below_cap [OF c True, of "randomRaw e 0"]
      by (simp add: qq q Let_def)
  next
    case False
    then show ?thesis using idx by (simp add: qq requeue_at_cap)
  qed
qed



theorem requeue_on_wrong_answer_witness:
  "currentQuestion (example_state (map example_question [''a'', ''i'', ''u'', ''e'']) 0 3)
     = Some (example_question ''a'')
   \<and> 1 < lives (example_state (map example_question [''a'', ''i'', ''u'', ''e'']) 0 3)
   \<and> currentIndex (submitAnswer (example_config (map JStr [''a'', ''i'', ''u'', ''e'']) 1)
                      (example_env 2000 7) False
                      (example_state (map example_question [''a'', ''i'', ''u'', ''e'']) 0 3)) = 1
   \<and> questionQueue (submitAnswer (example_config (map JStr [''a'', ''i'', ''u'', ''e'']) 1)
                      (example_env 2000 7) False
                      (example_state (map example_question [''a'', ''i'', ''u'', ''e'']) 0 3))
       = map example_question [''a'', ''i'', ''a'', ''u'', ''e'']"
  using requeue_on_wrong_answer
          [of "example_state (map example_question [''a'', ''i'', ''u'', ''e'']) 0 3"
              "example_question ''a''"
              "example_config (map JStr [''a'', ''i'', ''u'', ''e'']) 1" "example_env 2000 7"]
  by (simp add: example_defs requeueWidth_def)

text \<open>
  C2 as stated fails at the upper end of the window: with two entries and the cursor on the
  first, position 2 (the length of the queue) lies in the stated range, but whatever the
  draw the copy goes to position 1.
\<close>

theorem requeue_position_counterexample:
  "currentQuestion (example_state (map example_question [''a'', ''i'']) 0 3)
     = Some (example_question ''a'')
   \<and> 1 < lives (example_state (map example_question [''a'', ''i'']) 0 3)
   \<and> int (length (questionQueue (example_state (map example_question [''a'', ''i'']) 0 3)))
       < totalQuestions (example_config (map JStr [''a'', ''i'']) 1) * 3
   \<and> (2::int) \<in> {0 + 1 .. min (0 + 5) (int (length (map example_question [''a'', ''i''])))}
   \<and> (\<forall>t raw. questionQueue (submitAnswer (example_config (map JStr [''a'', ''i'']) 1)
                      (example_env t raw) False
                      (example_state (map example_question [''a'', ''i'']) 0 3))
         = map example_question [''a'', ''a'', ''i''])
   \<and> map example_question [''a'', ''a'', ''i'']
       \<noteq> take 2 (map example_question [''a'', ''i'']) @ [example_question ''a'']
           @ drop 2 (map example_question [''a'', ''i''])"
  by (simp add: example_defs submitAnswer_wrong requeue_def insertPos_def insertOffset_def
        random_integer_def splice_insert_def)



section \<open>Correct answers, the start and the result record\<close>

lemma submitAnswer_correct:
  assumes "currentQuestion s = Some q"
  shows "lives (submitAnswer cfg e True s)
           = (if regenerates (DIFFICULTY_CONFIG cfg (difficulty cfg)) \<and> lives s < maxLives s
                 \<and> regenThreshold s \<le> correctSinceLastRegen s + 1
              then min (lives s + 1) (maxLives s) else lives s)"
    and "maxLives (submitAnswer cfg e True s) = maxLives s"
    and "wrongAnswers (submitAnswer cfg e True s) = wrongAnswers s"
    and "correctAnswers (submitAnswer cfg e True s) = correctAnswers s + 1"
    and "currentStreak (submitAnswer cfg e True s) = currentStreak s + 1"
    and "GauntletState.bestStreak (submitAnswer cfg e True s)
           = (if GauntletState.bestStreak s < currentStreak s + 1 then currentStreak s + 1
              else GauntletState.bestStreak s)"
    and "correctSinceLastRegen (submitAnswer cfg e True s)
           = (if regenerates (DIFFICULTY_CONFIG cfg (difficulty cfg)) \<and> lives s < maxLives s
              then (if regenThreshold s \<le> correctSinceLastRegen s + 1 then 0
                    else correctSinceLastRegen s + 1)
              else correctSinceLastRegen s)"
    and "regenThreshold (submitAnswer cfg e True s) = regenThreshold s"
    and "GauntletState.livesRegenerated (submitAnswer cfg e True s)
           = (if regenerates (DIFFICULTY_CONFIG cfg (difficulty cfg)) \<and> lives s < maxLives s
                 \<and> regenThreshold s \<le> correctSinceLastRegen s + 1
              then GauntletState.livesRegenerated s + 1 else GauntletState.livesRegenerated s)"
    and "GauntletState.characterStats (submitAnswer cfg e True s)
           = tallyCorrect (getItemId (item q)) (GauntletState.characterStats s)"
    and "questionQueue (submitAnswer cfg e True s) = questionQueue s"
    and "currentIndex (submitAnswer cfg e True s)
           = (if lives s \<le> 0 \<or> totalQuestions cfg \<le> correctAnswers s + 1 then currentIndex s
              else currentIndex s + 1)"
    and "phase (submitAnswer cfg e True s)
           = (if lives s \<le> 0 \<or> totalQuestions cfg \<le> correctAnswers s + 1 then Results
              else phase s)"
  using assms
  by (auto simp add: submitAnswer_def advanceToNextQuestion_def endGame_def recordAnswerTime_def
        regenerate_def Let_def)

lemma submitAnswer_correct_stats:
  assumes "currentQuestion s = Some q"
  shows "sessionStats (submitAnswer cfg e True s)
           = (if lives s \<le> 0
              then Some (endGame_stats cfg e s False (lives s) (correctAnswers s + 1)
                           (wrongAnswers s) (int (currentIndex s) + 1))
              else if totalQuestions cfg \<le> correctAnswers s + 1
              then Some (endGame_stats cfg e s True (lives s) (correctAnswers s + 1)
                           (wrongAnswers s) (int (currentIndex s) + 1))
              else sessionStats s)"
  using assms
  by (simp add: submitAnswer_def advanceToNextQuestion_def endGame_def recordAnswerTime_def
        regenerate_def Let_def)



lemma endGame_stats_fields:
  "livesLost (endGame_stats cfg e s c l ca wa qc) = maxLives s - l + GauntletState.livesRegenerated s"
  "startingLives (endGame_stats cfg e s c l ca wa qc) = maxLives s"
  "livesRemaining (endGame_stats cfg e s c l ca wa qc) = l"
  "SessionStats.livesRegenerated (endGame_stats cfg e s c l ca wa qc) = GauntletState.livesRegenerated s"
  "SessionStats.wrongAnswers (endGame_stats cfg e s c l ca wa qc) = wa"
  "SessionStats.correctAnswers (endGame_stats cfg e s c l ca wa qc) = ca"
  "completed (endGame_stats cfg e s c l ca wa qc) = c"
  by (simp_all add: endGame_stats_def Let_def)

lemma run_snoc: "run cfg (evs @ [ev]) s = step cfg ev (run cfg evs s)"
  by (simp add: run_def)

section \<open>A session of one item\<close>

lemma generate_single:
  "generateQuestionQueue g [it] 1 = Inr [\<lparr>item = it, index = 0, repetitionNumber = 1\<rparr>]"
  by (simp add: generateQuestionQueue_def questionEntries_def setIndices_def)

lemma one_item_session:
  fixes e0 e1 e2 :: env
  assumes "items cfg = [it]" and "repetitions cfg = 1"
    and "DifficultyEntry.lives (DIFFICULTY_CONFIG cfg (difficulty cfg)) = 3"
  defines "evs \<equiv> [(e0, Start), (e1, Submit False), (e2, Submit True)]"
  shows "phase (run cfg evs initialState) = Results"
    and "lives (run cfg evs initialState) = 2"
    and "maxLives (run cfg evs initialState) = 3"
    and "GauntletState.livesRegenerated (run cfg evs initialState) = 0"
    and "correctAnswers (run cfg evs initialState) = 1"
    and "wrongAnswers (run cfg evs initialState) = 1"
    and "\<exists>r. sessionStats (run cfg evs initialState) = Some r
            \<and> completed r \<and> SessionStats.correctAnswers r = 1 \<and> SessionStats.wrongAnswers r = 1
            \<and> livesRemaining r = 2"
proof -
  let ?q = "\<lparr>item = it, index = 0, repetitionNumber = 1\<rparr>"
  define s1 where "s1 = handleStart cfg e0 initialState"
  define s2 where "s2 = submitAnswer cfg e1 False s1"
  define s3 where "s3 = submitAnswer cfg e2 True s2"
  have total: "totalQuestions cfg = 1" using assms by (simp add: totalQuestions_def)
  have s1: "phase s1 = Playing" "questionQueue s1 = [?q]" "currentIndex s1 = 0" "lives s1 = 3"
    "maxLives s1 = 3" "correctAnswers s1 = 0" "wrongAnswers s1 = 0" "regenThreshold s1 = 5"
    "correctSinceLastRegen s1 = 0" "GauntletState.livesRegenerated s1 = 0"
    using assms
    by (simp_all add: s1_def handleStart_def generate_single calculateRegenThreshold_def Let_def)
  have q1: "currentQuestion s1 = Some ?q" by (simp add: currentQuestion_def s1)
  have s2: "phase s2 = Playing" "questionQueue s2 = [?q, ?q]" "currentIndex s2 = 1" "lives s2 = 2"
    "maxLives s2 = 3" "correctAnswers s2 = 0" "wrongAnswers s2 = 1" "regenThreshold s2 = 5"
    "correctSinceLastRegen s2 = 0" "GauntletState.livesRegenerated s2 = 0"
    unfolding s2_def
    by (simp_all add: submitAnswer_wrong [OF q1] s1 total requeue_def insertPos_def
          insertOffset_def splice_insert_def)
  have q2: "currentQuestion s2 = Some ?q" by (simp add: currentQuestion_def s2)
  have s3: "phase s3 = Results" "lives s3 = 2" "correctAnswers s3 = 1" "wrongAnswers s3 = 1"
    "maxLives s3 = 3" "GauntletState.livesRegenerated s3 = 0"
    "sessionStats s3 = Some (endGame_stats cfg e2 s2 True 2 1 1 2)"
    unfolding s3_def
    by (simp_all add: submitAnswer_correct [OF q2] submitAnswer_correct_stats [OF q2] s2 total)
  have r: "run cfg evs initialState = s3"
    using assms(1) s1(1) s2(1)
    by (simp add: evs_def run_def step_def s3_def s2_def s1_def initialState_def)
  show "phase (run cfg evs initialState) = Results"
    and "lives (run cfg evs initialState) = 2"
    and "maxLives (run cfg evs initialState) = 3"
    and "GauntletState.livesRegenerated (run cfg evs initialState) = 0"
    and "correctAnswers (run cfg evs initialState) = 1"
    and "wrongAnswers (run cfg evs initialState) = 1"
    and "\<exists>r. sessionStats (run cfg evs initialState) = Some r
            \<and> completed r \<and> SessionStats.correctAnswers r = 1 \<and> SessionStats.wrongAnswers r = 1
            \<and> livesRemaining r = 2"
    by (simp_all add: r s3 endGame_stats_fields)
qed

text \<open>
  C3. A session over one item with one repetition and three lives, in which the first answer
  is wrong and the second, on the requeued copy, is correct, ends in the results phase with
  a result record that is completed and counts one correct and one wrong answer and two
  lives; the state holds the same counts and two lives.
\<close>

theorem wrong_then_correct_session:
  assumes "items cfg = [it]" and "repetitions cfg = 1"
    and "DifficultyEntry.lives (DIFFICULTY_CONFIG cfg (difficulty cfg)) = 3"
  shows "phase (run cfg [(e0, Start), (e1, Submit False), (e2, Submit True)] initialState) = Results
     \<and> lives (run cfg [(e0, Start), (e1, Submit False), (e2, Submit True)] initialState) = 2
     \<and> correctAnswers (run cfg [(e0, Start), (e1, Submit False), (e2, Submit True)] initialState) = 1
     \<and> wrongAnswers (run cfg [(e0, Start), (e1, Submit False), (e2, Submit True)] initialState) = 1
     \<and> (\<exists>r. sessionStats (run cfg [(e0, Start), (e1, Submit False), (e2, Submit True)] initialState)
               = Some r
            \<and> completed r \<and> SessionStats.correctAnswers r = 1 \<and> SessionStats.wrongAnswers r = 1
            \<and> livesRemaining r = 2)"
  using one_item_session [OF assms, of e0 e1 e2] by simp

theorem wrong_then_correct_session_witness:
  "items (example_config [JStr ''ka''] 1) = [JStr ''ka'']
   \<and> repetitions (example_config [JStr ''ka''] 1) = 1
   \<and> DifficultyEntry.lives (DIFFICULTY_CONFIG (example_config [JStr ''ka''] 1)
         (difficulty (example_config [JStr ''ka''] 1))) = 3
   \<and> phase (run (example_config [JStr ''ka''] 1)
               [(example_env 1000 0, Start), (example_env 2000 0, Submit False),
                (example_env 3000 0, Submit True)] initialState) = Results
   \<and> lives (run (example_config [JStr ''ka''] 1)
               [(example_env 1000 0, Start), (example_env 2000 0, Submit False),
                (example_env 3000 0, Submit True)] initialState) = 2"
  using wrong_then_correct_session
          [of "example_config [JStr ''ka''] 1" "JStr ''ka''" "example_env 1000 0"
              "example_env 2000 0" "example_env 3000 0"]
  by (simp add: example_config_def example_table_def)

section \<open>Regeneration\<close>

lemma below_ten:
  fixes n :: nat
  shows "n < 10 \<Longrightarrow> n \<in> {0, 1, 2, 3, 4, 5, 6, 7, 8, 9}"
  by (simp add: insert_iff) arith

lemma regen_arith_small:
  fixes n :: nat
  assumes "n < 10"
  shows "min 3 (1 + int (n div 5)) < 3"
    and "n mod 5 = 4 \<Longrightarrow> min 3 (1 + int (Suc n div 5)) = min 3 (1 + int (n div 5)) + 1"
    and "n mod 5 = 4 \<Longrightarrow> Suc n mod 5 = 0"
    and "n mod 5 \<noteq> 4 \<Longrightarrow> Suc n div 5 = n div 5"
    and "n mod 5 \<noteq> 4 \<Longrightarrow> Suc n mod 5 = Suc (n mod 5)"
  using below_ten [OF assms] by auto

lemma regen_arith_large:
  fixes n :: nat
  assumes "10 \<le> n"
  shows "min 3 (1 + int (n div 5)) = 3"
proof -
  have "2 \<le> n div 5" using assms by arith
  then show ?thesis by simp
qed


lemma correct_streak:
  assumes "regenerates (DIFFICULTY_CONFIG cfg (difficulty cfg))"
    and "items cfg \<noteq> []" and "phase s = Playing"
    and "maxLives s = 3" and "lives s = 1" and "regenThreshold s = 5"
    and "correctSinceLastRegen s = 0"
  shows "currentIndex s + length es \<le> length (questionQueue s) \<Longrightarrow>
         correctAnswers s + int (length es) < totalQuestions cfg \<Longrightarrow>
         phase (run cfg (correctAnswersRun es) s) = Playing
       \<and> questionQueue (run cfg (correctAnswersRun es) s) = questionQueue s
       \<and> currentIndex (run cfg (correctAnswersRun es) s) = currentIndex s + length es
       \<and> correctAnswers (run cfg (correctAnswersRun es) s) = correctAnswers s + int (length es)
       \<and> maxLives (run cfg (correctAnswersRun es) s) = 3
       \<and> regenThreshold (run cfg (correctAnswersRun es) s) = 5
       \<and> lives (run cfg (correctAnswersRun es) s) = min 3 (1 + int (length es div 5))
       \<and> correctSinceLastRegen (run cfg (correctAnswersRun es) s)
           = (if length es < 10 then int (length es mod 5) else 0)"
proof (induction es rule: rev_induct)
  case Nil
  then show ?case using assms by (simp add: run_def correctAnswersRun_def)
next
  case (snoc e es)
  let ?s = "run cfg (correctAnswersRun es) s"
  let ?t = "submitAnswer cfg e True ?s"
  let ?n = "length es"
  from snoc.prems have pre: "currentIndex s + ?n \<le> length (questionQueue s)"
    "correctAnswers s + int ?n < totalQuestions cfg" by simp_all
  note ih = snoc.IH [OF pre]
  from ih snoc.prems(1) have "currentIndex ?s < length (questionQueue ?s)" by simp
  then obtain q where q: "currentQuestion ?s = Some q" by (simp add: currentQuestion_def)
  have step: "run cfg (correctAnswersRun (es @ [e])) s = ?t"
    using ih assms(2) by (simp add: correctAnswersRun_def run_snoc step_def)
  have live: "\<not> lives ?s \<le> 0"
  proof -
    have "0 \<le> int (?n div 5)" by simp
    then show ?thesis using ih by simp
  qed
  have more: "\<not> totalQuestions cfg \<le> correctAnswers ?s + 1" using ih snoc.prems(2) by simp
  have f1: "phase ?t = Playing" using ih live more by (simp add: submitAnswer_correct(13) [OF q])
  have f2: "questionQueue ?t = questionQueue s" using ih by (simp add: submitAnswer_correct(11) [OF q])
  have f3: "currentIndex ?t = currentIndex s + length (es @ [e])"
    using ih live more by (simp add: submitAnswer_correct(12) [OF q])
  have f4: "correctAnswers ?t = correctAnswers s + int (length (es @ [e]))"
    using ih by (simp add: submitAnswer_correct(4) [OF q])
  have f5: "maxLives ?t = 3" using ih by (simp add: submitAnswer_correct(2) [OF q])
  have f6: "regenThreshold ?t = 5" using ih by (simp add: submitAnswer_correct(8) [OF q])
  have f78: "lives ?t = min 3 (1 + int (length (es @ [e]) div 5))
        \<and> correctSinceLastRegen ?t
            = (if length (es @ [e]) < 10 then int (length (es @ [e]) mod 5) else 0)"
  proof (cases "?n < 10")
    case small: True
    have lv: "lives ?s = min 3 (1 + int (?n div 5))" and c: "correctSinceLastRegen ?s = int (?n mod 5)"
      and mx: "maxLives ?s = 3" and th: "regenThreshold ?s = 5"
      using ih small by simp_all
    have lt: "lives ?s < maxLives ?s" using regen_arith_small(1) [OF small] lv mx by simp
    show ?thesis
    proof (cases "?n mod 5 = 4")
      case True
      have "Suc ?n < 10 \<or> Suc ?n = 10" using small by arith
      then show ?thesis
        using assms(1) lt lv c mx th True regen_arith_small(2,3) [OF small True]
        by (auto simp: submitAnswer_correct(1,7) [OF q])
    next
      case False
      then have "Suc ?n < 10" using small below_ten [OF small] by auto
      then show ?thesis
        using assms(1) lt lv c mx th False regen_arith_small(4,5) [OF small False]
        by (auto simp: submitAnswer_correct(1,7) [OF q])
    qed
  next
    case large: False
    have lv: "lives ?s = 3" and c: "correctSinceLastRegen ?s = 0" and mx: "maxLives ?s = 3"
      using ih large regen_arith_large [of ?n] by simp_all
    have "min 3 (1 + int (Suc ?n div 5)) = 3" using large by (intro regen_arith_large) simp
    then show ?thesis using lv c mx large by (simp add: submitAnswer_correct(1,7) [OF q])
  qed
  show ?case unfolding step using f1 f2 f3 f4 f5 f6 f78 by blast
qed

text \<open>
  C4. With regeneration enabled, three lives at most, one life left, threshold 5 and the
  counter at 0, consecutive correct answers in a running session give: after five, two
  lives and the counter back at 0; after five to nine, still two lives (the sixth does not
  raise them); after ten, three lives; and never more lives than the maximum.
\<close>

theorem regeneration_after_threshold:
  assumes "regenerates (DIFFICULTY_CONFIG cfg (difficulty cfg))"
    and "items cfg \<noteq> []" and "phase s = Playing"
    and "maxLives s = 3" and "lives s = 1" and "regenThreshold s = 5"
    and "correctSinceLastRegen s = 0"
    and "currentIndex s + length es \<le> length (questionQueue s)"
    and "correctAnswers s + int (length es) < totalQuestions cfg"
  shows "(length es = 5 \<longrightarrow>
            lives (run cfg (correctAnswersRun es) s) = 2
          \<and> correctSinceLastRegen (run cfg (correctAnswersRun es) s) = 0)
       \<and> (5 \<le> length es \<and> length es < 10 \<longrightarrow> lives (run cfg (correctAnswersRun es) s) = 2)
       \<and> (length es = 10 \<longrightarrow> lives (run cfg (correctAnswersRun es) s) = 3)
       \<and> lives (run cfg (correctAnswersRun es) s) \<le> maxLives (run cfg (correctAnswersRun es) s)"
proof -
  note r = correct_streak [OF assms]
  have a: "length es = 5 \<Longrightarrow> min 3 (1 + int (length es div 5)) = 2" by simp
  have b: "5 \<le> length es \<Longrightarrow> length es < 10 \<Longrightarrow> min 3 (1 + int (length es div 5)) = 2"
  proof -
    assume "5 \<le> length es" "length es < 10"
    then have "length es div 5 = 1" by arith
    then show ?thesis by simp
  qed
  have c: "length es = 10 \<Longrightarrow> min 3 (1 + int (length es div 5)) = 3" by simp
  show ?thesis using r a b c by auto
qed

theorem regeneration_after_threshold_witness:
  "regenerates (DIFFICULTY_CONFIG (example_config (map JStr [''a'', ''i'', ''u'', ''e'', ''o'', ''n'']) 1)
      (difficulty (example_config (map JStr [''a'', ''i'', ''u'', ''e'', ''o'', ''n'']) 1)))
   \<and> phase (example_state (map example_question [''a'', ''i'', ''u'', ''e'', ''o'', ''n'']) 0 1)
       = Playing
   \<and> maxLives (example_state (map example_question [''a'', ''i'', ''u'', ''e'', ''o'', ''n'']) 0 1) = 3
   \<and> lives (example_state (map example_question [''a'', ''i'', ''u'', ''e'', ''o'', ''n'']) 0 1) = 1
   \<and> regenThreshold (example_state (map example_question [''a'', ''i'', ''u'', ''e'', ''o'', ''n'']) 0 1) = 5
   \<and> correctSinceLastRegen
         (example_state (map example_question [''a'', ''i'', ''u'', ''e'', ''o'', ''n'']) 0 1) = 0
   \<and> lives (run (example_config (map JStr [''a'', ''i'', ''u'', ''e'', ''o'', ''n'']) 1)
               (correctAnswersRun (replicate 5 (example_env 2000 0)))
               (example_state (map example_question [''a'', ''i'', ''u'', ''e'', ''o'', ''n'']) 0 1)) = 2
   \<and> correctSinceLastRegen
         (run (example_config (map JStr [''a'', ''i'', ''u'', ''e'', ''o'', ''n'']) 1)
               (correctAnswersRun (replicate 5 (example_env 2000 0)))
               (example_state (map example_question [''a'', ''i'', ''u'', ''e'', ''o'', ''n'']) 0 1)) = 0"
  using regeneration_after_threshold
          [of "example_config (map JStr [''a'', ''i'', ''u'', ''e'', ''o'', ''n'']) 1"
              "example_state (map example_question [''a'', ''i'', ''u'', ''e'', ''o'', ''n'']) 0 1"
              "replicate 5 (example_env 2000 0)"]
  by (simp add: example_config_def example_table_def example_state_def initialState_def
        totalQuestions_def)

section \<open>Invariants of a session\<close>















section \<open>Item identity\<close>




section \<open>The store\<close>

lemma version_loadData: "version (loadData b st) = 1"
  by (simp add: loadData_def getDefaultData_def StoredBase.defs StoredGauntletData.defs
        split: option.splits stored_item.splits)

lemma loadData_saveData: "version data = 1 \<Longrightarrow> loadData False (saveData False data st) = data"
  by (simp add: loadData_def saveData_def)

lemma saveSession_ok:
  assumes "\<not> getItemFails io" and "\<not> setItemFails io"
  shows "lifetimeTotals (loadData False (snd (saveSession io x st)))
           = accumulate x (lifetimeTotals (loadData False st))"
    and "sessions (loadData False (snd (saveSession io x st)))
           = take 100 (SessionStats.extend x (GauntletSessionStats.fields (newId io))
                         # sessions (loadData False st))"
    and "bestTimes (loadData False (snd (saveSession io x st)))
           = (if newBestFor x (loadData False st)
              then (bestTimes (loadData False st))(SessionStats.dojoType x :=
                     (bestTimes (loadData False st) (SessionStats.dojoType x))
                       (keyOf x \<mapsto> totalTimeMs x))
              else bestTimes (loadData False st))"
    and "isNewBest (fst (saveSession io x st)) = newBestFor x (loadData False st)"
  using assms version_loadData [of False st]
  by (auto simp add: saveSession_def Let_def loadData_saveData newBestFor_def keyOf_def)












section \<open>Best times\<close>

lemma bestTimes_after_save:
  assumes "\<not> getItemFails io" and "\<not> setItemFails io"
  shows "bestTimes (loadData False (snd (saveSession io x st))) d k
           = (if newBestFor x (loadData False st) \<and> SessionStats.dojoType x = d \<and> keyOf x = k
              then Some (totalTimeMs x) else bestTimes (loadData False st) d k)"
  by (simp add: saveSession_ok(3) [OF assms])

text \<open>
  C7, at a stored best of 0. A completed session of 0 ms is saved, then a completed session
  of the same dojo and key of 500 ms. The second call reports a new best and the stored best
  becomes 500, although the least time among the completed sessions of the key is 0.
\<close>

theorem best_time_overwritten_after_zero:
  "getBestTime False (snd (saveSession (example_io ''g1'') (example_stats Kana True 0) None))
     Kana ''normal'' 1 ''Pick'' 5 = Some 0
   \<and> isNewBest (fst (saveSession (example_io ''g2'') (example_stats Kana True 500)
                       (snd (saveSession (example_io ''g1'') (example_stats Kana True 0) None))))
   \<and> getBestTime False
        (snd (saveSession (example_io ''g2'') (example_stats Kana True 500)
                (snd (saveSession (example_io ''g1'') (example_stats Kana True 0) None))))
        Kana ''normal'' 1 ''Pick'' 5 = Some 500
   \<and> keyOf (example_stats Kana True 0) = getBestTimeKey ''normal'' 1 ''Pick'' 5
   \<and> keyOf (example_stats Kana True 500) = getBestTimeKey ''normal'' 1 ''Pick'' 5
   \<and> leastTime (completedTimes Kana (getBestTimeKey ''normal'' 1 ''Pick'' 5)
                  [example_stats Kana True 0, example_stats Kana True 500]) = Some 0"
proof -
  have io: "\<not> getItemFails (example_io i)" "\<not> setItemFails (example_io i)" for i
    by (simp_all add: example_io_def)
  have k: "keyOf (example_stats d c t) = getBestTimeKey ''normal'' 1 ''Pick'' 5" for d c t
    by (simp add: keyOf_def example_stats_def)
  have f: "completed (example_stats d c t) = c" "SessionStats.dojoType (example_stats d c t) = d"
    "totalTimeMs (example_stats d c t) = t" for d c t
    by (simp_all add: example_stats_def)
  have init: "bestTimes (loadData False None) = (\<lambda>d. Map.empty)"
    by (simp add: loadData_def getDefaultData_def)
  show ?thesis
    by (simp add: getBestTime_def bestTimes_after_save [OF io] saveSession_ok(4) [OF io]
          newBestFor_def k f init completedTimes_def leastTime_def)
qed


text \<open>
  Where no completed session lasts 0 ms the store does hold the least time of each key, and
  a new best is reported exactly when the key has no entry or the new time is lower.
\<close>

lemma leastFrom_Cons:
  "leastFrom cur (t # ts)
     = leastFrom (Some (case cur of None \<Rightarrow> t | Some b \<Rightarrow> min t b)) ts"
  by (simp add: leastFrom_def leastTime_def split: option.splits)

lemma leastFrom_Nil: "leastFrom cur [] = cur"
  by (simp add: leastFrom_def leastTime_def split: option.splits)

lemma completedTimes_Cons:
  "completedTimes d k (x # xs)
     = (if completed x \<and> SessionStats.dojoType x = d \<and> keyOf x = k
        then totalTimeMs x # completedTimes d k xs else completedTimes d k xs)"
  by (simp add: completedTimes_def)

lemma best_time_after_saves:
  assumes "\<forall>c \<in> set calls. completed (snd c) \<longrightarrow> totalTimeMs (snd c) \<noteq> 0"
  shows "backendWorks calls \<Longrightarrow> bestTimes (loadData False st) d k \<noteq> Some 0 \<Longrightarrow>
         bestTimes (loadData False (saveSessions calls st)) d k
           = leastFrom (bestTimes (loadData False st) d k) (completedTimes d k (map snd calls))"
  using assms
proof (induction calls arbitrary: st)
  case Nil
  show ?case by (simp add: completedTimes_def leastFrom_Nil)
next
  case (Cons c calls)
  obtain io x where c: "c = (io, x)" by (cases c)
  from Cons.prems(1) have ok: "\<not> getItemFails io" "\<not> setItemFails io"
    and rest: "backendWorks calls"
    by (simp_all add: backendWorks_def c)
  from Cons.prems(3) have nz: "completed x \<longrightarrow> totalTimeMs x \<noteq> 0"
    and nzs: "\<forall>c \<in> set calls. completed (snd c) \<longrightarrow> totalTimeMs (snd c) \<noteq> 0"
    by (simp_all add: c)
  let ?st1 = "snd (saveSession io x st)"
  let ?cur = "bestTimes (loadData False st) d k"
  have one: "bestTimes (loadData False ?st1) d k
           = (if newBestFor x (loadData False st) \<and> SessionStats.dojoType x = d \<and> keyOf x = k
              then Some (totalTimeMs x) else ?cur)"
    by (rule bestTimes_after_save [OF ok])
  have nz1: "bestTimes (loadData False ?st1) d k \<noteq> Some 0"
    using Cons.prems(2) nz by (auto simp: one newBestFor_def)
  have IH: "bestTimes (loadData False (saveSessions calls ?st1)) d k
              = leastFrom (bestTimes (loadData False ?st1) d k) (completedTimes d k (map snd calls))"
    by (rule Cons.IH [OF rest nz1 nzs])
  show ?case
  proof (cases "completed x \<and> SessionStats.dojoType x = d \<and> keyOf x = k")
    case True
    then have "bestTimes (loadData False ?st1) d k
                 = Some (case ?cur of None \<Rightarrow> totalTimeMs x | Some b \<Rightarrow> min (totalTimeMs x) b)"
      using Cons.prems(2) by (auto simp: one newBestFor_def split: option.splits)
    then show ?thesis using True IH by (simp add: c completedTimes_Cons leastFrom_Cons)
  next
    case False
    then have "bestTimes (loadData False ?st1) d k = ?cur" by (auto simp: one newBestFor_def)
    then show ?thesis using False IH by (auto simp: c completedTimes_Cons)
  qed
qed

lemma best_time_is_least_when_nonzero:
  assumes "backendWorks calls"
    and "\<forall>c \<in> set calls. completed (snd c) \<longrightarrow> totalTimeMs (snd c) \<noteq> 0"
  shows "bestTimes (loadData False (saveSessions calls None)) d k
           = leastTime (completedTimes d k (map snd calls))"
proof -
  have "bestTimes (loadData False None) d k = None"
    by (simp add: loadData_def getDefaultData_def)
  then show ?thesis
    using best_time_after_saves [OF assms(2) assms(1), of None d k]
    by (simp add: leastFrom_def)
qed

lemma isNewBest_when_nonzero:
  assumes "\<not> getItemFails io" and "\<not> setItemFails io"
    and "bestTimes (loadData False st) (SessionStats.dojoType x) (keyOf x) \<noteq> Some 0"
  shows "isNewBest (fst (saveSession io x st)) \<longleftrightarrow>
           completed x \<and>
           (case bestTimes (loadData False st) (SessionStats.dojoType x) (keyOf x) of
              None \<Rightarrow> True | Some b \<Rightarrow> totalTimeMs x < b)"
  using assms(3)
  by (auto simp: saveSession_ok(4) [OF assms(1,2)] newBestFor_def split: option.splits)

end
